theory Spec2Isabelle
  imports Complex_Main
begin

section \<open>Ray tracing across interfaces: the module arim.im.fermat_solver\<close>

text \<open>
  The module computes shortest-time rays through a stack of interfaces.  The embedding
  follows the three classes of the module: \<open>FermatPath\<close> (a tuple of point-sets and
  speeds), \<open>Rays\<close> (times and indices of the rays of one path) and \<open>FermatSolver\<close>
  (the memoised recursion).  Exceptions are values of the type \<open>error\<close>; a method that
  may raise returns \<open>error + 'a\<close>.
\<close>

datatype error = ValueError | TypeError | AssertionError | IndexError

subsection \<open>numpy arrays\<close>

text \<open>
  An array is its dtype, its shape and its buffer in C order.  A dtype is the kind
  character (\<open>u\<close> unsigned, \<open>i\<close> signed, \<open>f\<close> floating) and the item size in bytes.
  Every array numpy builds satisfies \<open>wf_array\<close>: the buffer holds one item per cell.
  The element type of floating arrays is a type variable: the arithmetic of the float
  dtype (the division of \<open>consecutive_times\<close>) is whatever that type provides.
\<close>

datatype dtype = DType (kind: char) (itemsize: nat)

record 'a ndarray =
  dtype :: dtype
  shape :: "nat list"
  data :: "'a list"

definition ndim :: "'a ndarray \<Rightarrow> nat" where
  "ndim a = length (shape a)"

definition wf_array :: "'a ndarray \<Rightarrow> bool" where
  "wf_array a = (length (data a) = prod_list (shape a))"

text \<open>\<open>a[i, j]\<close> of a 2-d array and \<open>a[k, i, j]\<close> of a 3-d array, inside the bounds.\<close>

definition at2 :: "'a ndarray \<Rightarrow> nat \<Rightarrow> nat \<Rightarrow> 'a" where
  "at2 a i j = data a ! (i * (shape a ! 1) + j)"

definition at3 :: "'a ndarray \<Rightarrow> nat \<Rightarrow> nat \<Rightarrow> nat \<Rightarrow> 'a" where
  "at3 a k i j = data a ! ((k * (shape a ! 1) + i) * (shape a ! 2) + j)"

text \<open>\<open>np.arange(n)\<close>, \<open>np.repeat(xs, m)\<close> and \<open>np.tile(xs, n)\<close> on 1-d buffers.\<close>

definition arange :: "nat \<Rightarrow> nat list" where
  "arange n = [0..<n]"

definition repeat :: "'a list \<Rightarrow> nat \<Rightarrow> 'a list" where
  "repeat xs m = concat (map (replicate m) xs)"

definition tile :: "'a list \<Rightarrow> nat \<Rightarrow> 'a list" where
  "tile xs n = concat (replicate n xs)"

text \<open>
  Storing an integer into an array of an unsigned dtype keeps it modulo \<open>2 ^ bits\<close>
  (numpy assigns arrays with an unchecked C cast).  \<open>Rays.__init__\<close> lets only
  kind \<open>u\<close> reach \<open>make_indices\<close>; for the other kinds the value is left as it is.
\<close>

definition cast_index :: "dtype \<Rightarrow> nat \<Rightarrow> nat" where
  "cast_index dt v = (if kind dt = CHR ''u'' then v mod 2 ^ (8 * itemsize dt) else v)"

text \<open>
  \<open>a[lo:hi, ...] = vals\<close> on the first axis of a 3-d array: the cells of the layers
  \<open>lo..hi-1\<close> are replaced by \<open>vals\<close>, which numpy requires to have their shape.
\<close>

definition set_layers :: "'a ndarray \<Rightarrow> nat \<Rightarrow> nat \<Rightarrow> 'a list \<Rightarrow> 'a ndarray" where
  "set_layers a lo hi vals =
     (let sz = prod_list (tl (shape a)) in
      a\<lparr>data := take (lo * sz) (data a) @ vals @ drop (hi * sz) (data a)\<rparr>)"

text \<open>\<open>a[1:-1, ...]\<close>: the layers but the first and the last.\<close>

definition slice_1_m1 :: "'a ndarray \<Rightarrow> 'a ndarray" where
  "slice_1_m1 a =
     (let sz = prod_list (tl (shape a)); d = hd (shape a) in
      a\<lparr>shape := (d - 2) # tl (shape a),
        data := take ((d - 2) * sz) (drop sz (data a))\<rparr>)"

text \<open>\<open>a.reshape(new_shape)\<close>: the same buffer under another shape of the same size.\<close>

definition reshape :: "'a ndarray \<Rightarrow> nat list \<Rightarrow> error + 'a ndarray" where
  "reshape a new_shape =
     (if prod_list new_shape = prod_list (shape a) then Inr (a\<lparr>shape := new_shape\<rparr>)
      else Inl ValueError)"

subsection \<open>FermatPath\<close>

text \<open>
  A point-set is an object of the geometry module: here its identity and its number of
  points (\<open>len(points)\<close>).  A path element is a point-set or a speed.  A FermatPath is a
  tuple of elements; \<open>__new__\<close> checks its length only.
\<close>

datatype points = Points (pid: nat) (plen: nat)

datatype 'f elem = P points | V 'f

definition FermatPath_new :: "'f elem list \<Rightarrow> error + 'f elem list" where
  "FermatPath_new sequence =
     (if length sequence mod 2 = 0 \<or> length sequence < 3 then Inl ValueError
      else Inr sequence)"

text \<open>
  The invariant the class documents and \<open>__new__\<close> does not check: a path starts and
  ends with a point-set, and point-sets and speeds alternate.
\<close>

fun alternates :: "'f elem list \<Rightarrow> bool" where
  "alternates [P a] = True"
| "alternates (P a # V v # rest) = alternates rest"
| "alternates _ = False"

text \<open>\<open>__add__\<close>: \<open>self[-1] != tail[0]\<close> raises; otherwise \<open>(*self, *tail[1:])\<close>.\<close>

definition FermatPath_add :: "'f elem list \<Rightarrow> 'f elem list \<Rightarrow> error + 'f elem list" where
  "FermatPath_add self tail =
     (if self = [] \<or> tail = [] then Inl IndexError
      else if last self \<noteq> hd tail then Inl ValueError
      else FermatPath_new (self @ drop 1 tail))"

text \<open>\<open>split_head\<close>: \<open>self[:3]\<close> and \<open>self[2:]\<close>.\<close>

definition split_head :: "'f elem list \<Rightarrow> error + ('f elem list \<times> 'f elem list)" where
  "split_head self =
     (if length self < 5 then Inl ValueError
      else (case FermatPath_new (take 3 self) of
              Inl e \<Rightarrow> Inl e
            | Inr head \<Rightarrow>
                (case FermatPath_new (drop 2 self) of
                   Inl e \<Rightarrow> Inl e
                 | Inr tail \<Rightarrow> Inr (head, tail))))"

text \<open>\<open>split_queue\<close>: \<open>self[:-2]\<close> and \<open>self[-3:]\<close>.\<close>

definition split_queue :: "'f elem list \<Rightarrow> error + ('f elem list \<times> 'f elem list)" where
  "split_queue self =
     (if length self < 5 then Inl ValueError
      else (case FermatPath_new (take (length self - 2) self) of
              Inl e \<Rightarrow> Inl e
            | Inr head \<Rightarrow>
                (case FermatPath_new (drop (length self - 3) self) of
                   Inl e \<Rightarrow> Inl e
                 | Inr tail \<Rightarrow> Inr (head, tail))))"

text \<open>The property \<open>points\<close>: the elements at the even positions.\<close>

definition path_points :: "'f elem list \<Rightarrow> 'f elem list" where
  "path_points self = map snd (filter (\<lambda>(i, obj). i mod 2 = 0) (enumerate 0 self))"

definition num_points_sets :: "'f elem list \<Rightarrow> nat" where
  "num_points_sets self = length self div 2 + 1"

text \<open>\<open>len(x)\<close> of a path element: a speed (a float) has no length.\<close>

fun len_elem :: "'f elem \<Rightarrow> error + nat" where
  "len_elem (P p) = Inr (plen p)"
| "len_elem (V v) = Inl TypeError"

subsection \<open>Rays\<close>

text \<open>
  A Rays object holds \<open>_times\<close>, \<open>_indices\<close> and \<open>_fermat_path\<close>.  Python objects have an
  identity (\<open>is\<close>); \<open>ray_oid\<close> is the identity the object got when it was created.
\<close>

record 'f Rays =
  ray_oid :: nat
  ray_times :: "'f ndarray"
  ray_indices :: "nat ndarray"
  ray_fermat_path :: "'f elem list"

text \<open>
  \<open>make_indices\<close>: a zero array of \<open>dm2 + 2\<close> layers; layer 0 gets \<open>repeat(arange(n), m)\<close>,
  layer -1 gets \<open>tile(arange(m), n)\<close>, the layers between get \<open>interior_indices\<close>.
\<close>

definition make_indices :: "nat ndarray \<Rightarrow> error + nat ndarray" where
  "make_indices interior_indices =
     (case shape interior_indices of
        [dm2, n, m] \<Rightarrow>
          (let dt = dtype interior_indices;
               indices0 = \<lparr>dtype = dt, shape = [dm2 + 2, n, m],
                            data = replicate ((dm2 + 2) * n * m) 0\<rparr>;
               indices1 = set_layers indices0 0 1 (map (cast_index dt) (repeat (arange n) m));
               indices2 = set_layers indices1 (dm2 + 1) (dm2 + 2)
                            (map (cast_index dt) (tile (arange m) n));
               indices3 = set_layers indices2 1 (dm2 + 1) (data interior_indices)
           in Inr indices3)
      | _ \<Rightarrow> Inl ValueError)"

text \<open>
  \<open>Rays.__init__\<close>, with \<open>oid\<close> the identity of the object under construction.  The
  chained comparison of the third assertion stops at its first false link, before the
  lengths of the point-sets are taken.
\<close>

definition Rays_init ::
  "nat \<Rightarrow> 'f ndarray \<Rightarrow> nat ndarray \<Rightarrow> 'f elem list \<Rightarrow> error + 'f Rays" where
  "Rays_init oid times' interior_indices fermat_path =
     (if ndim times' \<noteq> 2 then Inl AssertionError
      else if ndim interior_indices \<noteq> 3 then Inl AssertionError
      else if shape times' \<noteq> tl (shape interior_indices) then Inl AssertionError
      else (case path_points fermat_path of
              [] \<Rightarrow> Inl IndexError
            | p0 # ps \<Rightarrow>
                (case len_elem p0 of
                   Inl e \<Rightarrow> Inl e
                 | Inr n \<Rightarrow>
                     (case len_elem (last (p0 # ps)) of
                        Inl e \<Rightarrow> Inl e
                      | Inr m \<Rightarrow>
                          if tl (shape interior_indices) \<noteq> [n, m] then Inl AssertionError
                          else if num_points_sets fermat_path \<noteq> hd (shape interior_indices) + 2
                            then Inl AssertionError
                          else if kind (dtype interior_indices) \<noteq> CHR ''u'' then Inl TypeError
                          else if kind (dtype times') \<noteq> CHR ''f'' then Inl AssertionError
                          else (case make_indices interior_indices of
                                  Inl e \<Rightarrow> Inl e
                                | Inr indices \<Rightarrow>
                                    Inr \<lparr>ray_oid = oid, ray_times = times',
                                         ray_indices = indices,
                                         ray_fermat_path = fermat_path\<rparr>)))))"

text \<open>The property \<open>interior_indices\<close>: \<open>self.indices[1:-1, ...]\<close>.\<close>

definition interior_indices :: "'f Rays \<Rightarrow> nat ndarray" where
  "interior_indices self = slice_1_m1 (ray_indices self)"

text \<open>
  \<open>make_rays_two_interfaces\<close>: the constructor for a path of two point-sets, with an
  empty array of interior indices of shape \<open>(0, n, m)\<close>.
\<close>

definition make_rays_two_interfaces ::
  "nat \<Rightarrow> 'f ndarray \<Rightarrow> 'f elem list \<Rightarrow> dtype \<Rightarrow> error + 'f Rays" where
  "make_rays_two_interfaces oid times' path dtype_indices =
     (if num_points_sets path \<noteq> 2 then Inl ValueError
      else (case path_points path of
              [] \<Rightarrow> Inl IndexError
            | p0 # ps \<Rightarrow>
                (case len_elem p0 of
                   Inl e \<Rightarrow> Inl e
                 | Inr n \<Rightarrow>
                     (case ps of
                        [] \<Rightarrow> Inl IndexError
                      | p1 # qs \<Rightarrow>
                          (case len_elem p1 of
                             Inl e \<Rightarrow> Inl e
                           | Inr m \<Rightarrow>
                               Rays_init oid times'
                                 \<lparr>dtype = dtype_indices, shape = [0, n, m],
                                  data = replicate (0 * n * m) 0\<rparr> path)))))"

text \<open>
  \<open>expand_rays\<close>.  The compiled loop \<open>_expand_rays\<close> that fills the result when
  \<open>d > 0\<close> is a parameter: \<open>expand_kernel\<close> gives the buffer it leaves in \<open>expanded_indices\<close>.
\<close>

definition expand_rays ::
  "('a ndarray \<Rightarrow> 'a ndarray \<Rightarrow> nat \<Rightarrow> nat \<Rightarrow> nat \<Rightarrow> nat \<Rightarrow> 'a list) \<Rightarrow>
   'a ndarray \<Rightarrow> 'a ndarray \<Rightarrow> error + 'a ndarray" where
  "expand_rays expand_kernel interior_indices' indices_new_interface =
     (case shape interior_indices' of
        [d, n, m] \<Rightarrow>
          (case shape indices_new_interface of
             [n', p] \<Rightarrow>
               if n \<noteq> n' then Inl ValueError
               else if d = 0 then reshape indices_new_interface (1 # shape indices_new_interface)
               else Inr \<lparr>dtype = dtype interior_indices', shape = [d + 1, n, p],
                         data = expand_kernel interior_indices' indices_new_interface n m p d\<rparr>
           | _ \<Rightarrow> Inl ValueError)
      | _ \<Rightarrow> Inl ValueError)"

subsection \<open>FermatSolver\<close>

text \<open>
  The collaborators of the solver are parameters: \<open>distance_pairwise\<close> of the geometry
  module, \<open>find_minimum_times\<close> of \<open>arim.im.base\<close> and the compiled \<open>_expand_rays\<close>.
\<close>

record 'f caps =
  distance_pairwise :: "points \<Rightarrow> points \<Rightarrow> dtype \<Rightarrow> 'f ndarray"
  find_minimum_times :: "'f ndarray \<Rightarrow> 'f ndarray \<Rightarrow> dtype \<Rightarrow> dtype \<Rightarrow> 'f ndarray \<times> nat ndarray"
  expand_rays_kernel :: "nat ndarray \<Rightarrow> nat ndarray \<Rightarrow> nat \<Rightarrow> nat \<Rightarrow> nat \<Rightarrow> nat \<Rightarrow> nat list"

text \<open>
  Modelled from the spec: the class \<open>Cache\<close> of \<open>arim.core.cache\<close> is not among the
  sources; the spec describes the two caches as clearable mappings from keys to values,
  so each is a map.

  The state of a solver, as far as \<open>_solve\<close> and \<open>consecutive_times\<close> read or write it
  (\<open>res\<close> and \<open>paths\<close> are touched by neither).  \<open>solver_dtype\<close> is the attribute
  \<open>dtype\<close>.  \<open>next_oid\<close> is the identity the next object created will get: creating a
  Rays object advances it, so two objects created by two calls are never the same
  object.  An exception ends the solve: the model does not follow the solver after it.
\<close>

record 'f FermatSolver =
  solver_dtype :: dtype
  dtype_indices :: dtype
  cached_distance :: "points \<times> points \<rightharpoonup> 'f ndarray"
  cached_result :: "'f elem list \<rightharpoonup> 'f Rays"
  num_minimization :: nat
  num_euc_distance :: nat
  next_oid :: nat

definition clear_cache :: "'f FermatSolver \<Rightarrow> 'f FermatSolver" where
  "clear_cache self = self\<lparr>cached_distance := Map.empty, cached_result := Map.empty\<rparr>"

text \<open>\<open>distance.T\<close> of a 2-d array.\<close>

definition transpose_arr :: "'a ndarray \<Rightarrow> 'a ndarray" where
  "transpose_arr a =
     (let n = shape a ! 0; m = shape a ! 1 in
      a\<lparr>shape := [m, n],
        data := concat (map (\<lambda>j. map (\<lambda>i. at2 a i j) [0..<n]) [0..<m])\<rparr>)"

text \<open>
  \<open>distance / speed\<close>: every cell divided by the scalar; the result of a true division
  is a floating array (of the dtype of a floating operand).
\<close>

definition true_divide :: "'f::inverse ndarray \<Rightarrow> 'f \<Rightarrow> 'f ndarray" where
  "true_divide a speed =
     a\<lparr>dtype := (if kind (dtype a) = CHR ''f'' then dtype a else DType (CHR ''f'') 8),
       data := map (\<lambda>d. d / speed) (data a)\<rparr>"

text \<open>
  \<open>consecutive_times\<close>.  The path unpacks into \<open>points1, speed, points2\<close> (a ValueError
  when it has not three elements; an element of the wrong kind makes the collaborators
  raise).  On a miss of the distance cache the distance is computed and stored under
  \<open>key\<close>; \<open>rkey\<close> is built as the source builds it.
\<close>

definition consecutive_times ::
  "'f::inverse caps \<Rightarrow> 'f FermatSolver \<Rightarrow> 'f elem list \<Rightarrow> error + ('f Rays \<times> 'f FermatSolver)" where
  "consecutive_times caps self path =
     (case path of
        [e1, e2, e3] \<Rightarrow>
          (case (e1, e2, e3) of
             (P points1, V speed, P points2) \<Rightarrow>
               (let key = (points1, points2);
                    (distance, self') =
                      (case cached_distance self key of
                         Some d \<Rightarrow> (d, self)
                       | None \<Rightarrow>
                           (let self1 = self\<lparr>num_euc_distance := num_euc_distance self + 1\<rparr>;
                                d = distance_pairwise caps points1 points2 (solver_dtype self1);
                                rkey = (points1, points2);
                                self2 = self1\<lparr>cached_distance := (cached_distance self1)(key \<mapsto> d)\<rparr>;
                                self3 = (if key \<noteq> rkey
                                         then self2\<lparr>cached_distance :=
                                                (cached_distance self2)(rkey \<mapsto> transpose_arr d)\<rparr>
                                         else self2)
                            in (d, self3)))
                in (case make_rays_two_interfaces (next_oid self') (true_divide distance speed)
                           path (dtype_indices self') of
                      Inl e \<Rightarrow> Inl e
                    | Inr res \<Rightarrow> Inr (res, self'\<lparr>next_oid := next_oid self' + 1\<rparr>)))
           | _ \<Rightarrow> Inl TypeError)
      | _ \<Rightarrow> Inl ValueError)"

lemma split_queue_Inr:
  "split_queue path = Inr (head, tail) \<Longrightarrow>
   5 \<le> length path \<and> head = take (length path - 2) path \<and> tail = drop (length path - 3) path"
  by (auto simp: split_queue_def FermatPath_new_def split: if_splits)

text \<open>
  \<open>_solve\<close>: a hit of the result cache; the base case of three elements; otherwise the
  path is split at its last interface, both parts are solved, the minimisation combines
  their times, the rays of the head are expanded and the result is stored in the cache.
\<close>

function solve_rec ::
  "'f::inverse caps \<Rightarrow> 'f FermatSolver \<Rightarrow> 'f elem list \<Rightarrow> error + ('f Rays \<times> 'f FermatSolver)" where
  "solve_rec caps self path =
     (case cached_result self path of
        Some res \<Rightarrow> Inr (res, self)
      | None \<Rightarrow>
          if length path = 3 then consecutive_times caps self path
          else (case split_queue path of
                  Inl e \<Rightarrow> Inl e
                | Inr (head, tail) \<Rightarrow>
                    (case solve_rec caps self head of
                       Inl e \<Rightarrow> Inl e
                     | Inr (res_head, self1) \<Rightarrow>
                         (case solve_rec caps self1 tail of
                            Inl e \<Rightarrow> Inl e
                          | Inr (res_tail, self2) \<Rightarrow>
                              (let self3 = self2\<lparr>num_minimization := num_minimization self2 + 1\<rparr>;
                                   (times', indices_at_interface) =
                                     find_minimum_times caps (ray_times res_head) (ray_times res_tail)
                                       (solver_dtype self3) (dtype_indices self3)
                               in if num_points_sets (ray_fermat_path res_tail) \<noteq> 2
                                  then Inl AssertionError
                                  else (case expand_rays (expand_rays_kernel caps)
                                               (interior_indices res_head) indices_at_interface of
                                          Inl e \<Rightarrow> Inl e
                                        | Inr indices \<Rightarrow>
                                            (case Rays_init (next_oid self3) times' indices path of
                                               Inl e \<Rightarrow> Inl e
                                             | Inr res \<Rightarrow>
                                                 Inr (res, self3\<lparr>next_oid := next_oid self3 + 1,
                                                        cached_result :=
                                                          (cached_result self3)(path \<mapsto> res)\<rparr>))))))))"
  by pat_completeness auto
termination
  by (relation "measure (\<lambda>(caps, self, path). length path)")
     (auto dest!: split_queue_Inr)

declare solve_rec.simps [simp del]

text \<open>
  Calls of \<open>_solve\<close> made one after the other on the same solver, as the loop of
  \<open>solve_no_clean\<close> makes them; nothing between them clears the caches.
\<close>

fun solve_calls ::
  "'f::inverse caps \<Rightarrow> 'f FermatSolver \<Rightarrow> 'f elem list list \<Rightarrow> error + 'f FermatSolver" where
  "solve_calls caps self [] = Inr self"
| "solve_calls caps self (path # paths) =
     (case solve_rec caps self path of
        Inl e \<Rightarrow> Inl e
      | Inr (res, self') \<Rightarrow> solve_calls caps self' paths)"

text \<open>
  Modelled from the spec: \<open>find_minimum_times\<close> (module \<open>arim.im.base\<close>) is not among
  the sources.  Its contract in the spec: given two time matrices sharing a middle
  dimension, return the element-wise minimum over that dimension and the argmin index,
  the lowest index on ties.  \<open>leg_sums A B i j\<close> lists \<open>A[i, k] + B[k, j]\<close> over the
  middle points \<open>k\<close>; \<open>fmt_contract\<close> is the contract, \<open>find_minimum_times_spec\<close> a
  function that meets it.
\<close>

definition leg_sums :: "'f::plus ndarray \<Rightarrow> 'f ndarray \<Rightarrow> nat \<Rightarrow> nat \<Rightarrow> 'f list" where
  "leg_sums A B i j = map (\<lambda>k. at2 A i k + at2 B k j) [0..<shape A ! 1]"

definition min_over_middle :: "'f::{plus,linorder} ndarray \<Rightarrow> 'f ndarray \<Rightarrow> nat \<Rightarrow> nat \<Rightarrow> 'f" where
  "min_over_middle A B i j = Min (set (leg_sums A B i j))"

definition argmin_over_middle :: "'f::{plus,linorder} ndarray \<Rightarrow> 'f ndarray \<Rightarrow> nat \<Rightarrow> nat \<Rightarrow> nat" where
  "argmin_over_middle A B i j =
     length (takeWhile (\<lambda>s. s \<noteq> min_over_middle A B i j) (leg_sums A B i j))"

definition fmt_contract ::
  "('f::{plus,linorder} ndarray \<Rightarrow> 'f ndarray \<Rightarrow> dtype \<Rightarrow> dtype \<Rightarrow> 'f ndarray \<times> nat ndarray) \<Rightarrow> bool" where
  "fmt_contract f =
     (\<forall>A B dt dti n p m. shape A = [n, p] \<and> shape B = [p, m] \<and> 0 < p \<longrightarrow>
        shape (fst (f A B dt dti)) = [n, m] \<and> shape (snd (f A B dt dti)) = [n, m] \<and>
        (\<forall>i j. i < n \<and> j < m \<longrightarrow>
           at2 (fst (f A B dt dti)) i j = min_over_middle A B i j \<and>
           at2 (snd (f A B dt dti)) i j = argmin_over_middle A B i j))"

definition find_minimum_times_spec ::
  "'f::{plus,linorder} ndarray \<Rightarrow> 'f ndarray \<Rightarrow> dtype \<Rightarrow> dtype \<Rightarrow> 'f ndarray \<times> nat ndarray" where
  "find_minimum_times_spec A B dt dti =
     (let n = shape A ! 0; m = shape B ! 1 in
      (\<lparr>dtype = dt, shape = [n, m],
        data = concat (map (\<lambda>i. map (\<lambda>j. min_over_middle A B i j) [0..<m]) [0..<n])\<rparr>,
       \<lparr>dtype = dti, shape = [n, m],
        data = concat (map (\<lambda>i. map (\<lambda>j. argmin_over_middle A B i j) [0..<m]) [0..<n])\<rparr>))"

subsection \<open>Angles of the rays at the interfaces\<close>

text \<open>
  An interface object of the caller: its point-set, its orientations and the two flags
  that say on which side of the rays the normals are (\<open>None\<close>: no angle is wanted).
\<close>

record ('p, 'o) interface =
  points :: 'p
  orientations :: 'o
  are_normals_on_inc_rays_side :: "bool option"
  are_normals_on_out_rays_side :: "bool option"

text \<open>
  What a generator yields: \<open>None\<close>, the pair \<open>(None, None)\<close>, one array, or a pair of
  arrays.  A generator is the list of what it yields and the exception that ended it,
  if one did.
\<close>

datatype 'a yielded = YNone | YNoneNone | YOne 'a | YPair 'a 'a

definition no_value :: "bool \<Rightarrow> 'a yielded" where
  "no_value return_distances = (if return_distances then YNoneNone else YNone)"

definition yield :: "'a yielded \<Rightarrow> 'a yielded list \<times> error option \<Rightarrow> 'a yielded list \<times> error option" where
  "yield y rest = (y # fst rest, snd rest)"

text \<open>\<open>a[k]\<close> of a 3-d array: the layer \<open>k\<close>, an IndexError outside the first axis.\<close>

definition layer :: "'a ndarray \<Rightarrow> nat \<Rightarrow> error + 'a ndarray" where
  "layer a k =
     (if k < hd (shape a)
      then (let sz = prod_list (tl (shape a)) in
            Inr (a\<lparr>shape := tl (shape a), data := take sz (drop (k * sz) (data a))\<rparr>))
      else Inl IndexError)"

text \<open>\<open>np.pi - theta\<close>, cell by cell.\<close>

definition pi_minus :: "real ndarray \<Rightarrow> real ndarray" where
  "pi_minus theta = theta\<lparr>data := map (\<lambda>t. pi - t) (data theta)\<rparr>"

text \<open>
  The geometry between an interface and its neighbour is the work of collaborators
  (indexing of point-sets and orientations, \<open>g.to_gcs\<close>, \<open>g.spherical_coordinates\<close>).
  Their composition is the parameter \<open>leg_spherical\<close>: from the points and orientations
  of the interface, the points of the neighbour and the indices of the rays at both, it
  gives \<open>theta\<close> and \<open>r\<close> of the legs in the frame of the interface.

  The body of the loop of \<open>get_outgoing_angles\<close>, for the interfaces whose positions are
  listed; after the loop the generator yields for the last interface.
\<close>

fun outgoing_loop ::
  "('p \<Rightarrow> 'o \<Rightarrow> 'p \<Rightarrow> nat ndarray \<Rightarrow> nat ndarray \<Rightarrow> real ndarray \<times> real ndarray) \<Rightarrow>
   'f Rays \<Rightarrow> ('p, 'o) interface list \<Rightarrow> bool \<Rightarrow> nat list \<Rightarrow>
   real ndarray yielded list \<times> error option" where
  "outgoing_loop leg_spherical self interfaces return_distances [] =
     ([no_value return_distances], None)"
| "outgoing_loop leg_spherical self interfaces return_distances (interface_idx # todo) =
     (let interface = interfaces ! interface_idx;
          next_interface = interfaces ! (interface_idx + 1)
      in case are_normals_on_out_rays_side interface of
           None \<Rightarrow>
             yield (no_value return_distances)
               (outgoing_loop leg_spherical self interfaces return_distances todo)
         | Some on_side \<Rightarrow>
             (case layer (ray_indices self) interface_idx of
                Inl e \<Rightarrow> ([], Some e)
              | Inr idx \<Rightarrow>
                  (case layer (ray_indices self) (interface_idx + 1) of
                     Inl e \<Rightarrow> ([], Some e)
                   | Inr idx_next \<Rightarrow>
                       (let (theta, distances) =
                              leg_spherical (points interface) (orientations interface)
                                (points next_interface) idx idx_next;
                            alpha = (if on_side then theta else pi_minus theta)
                        in yield (if return_distances then YPair alpha distances
                                  else YOne distances)
                             (outgoing_loop leg_spherical self interfaces return_distances todo)))))"

definition get_outgoing_angles ::
  "('p \<Rightarrow> 'o \<Rightarrow> 'p \<Rightarrow> nat ndarray \<Rightarrow> nat ndarray \<Rightarrow> real ndarray \<times> real ndarray) \<Rightarrow>
   'f Rays \<Rightarrow> ('p, 'o) interface list \<Rightarrow> bool \<Rightarrow>
   real ndarray yielded list \<times> error option" where
  "get_outgoing_angles leg_spherical self interfaces return_distances =
     outgoing_loop leg_spherical self interfaces return_distances [0..<length interfaces - 1]"

text \<open>
  \<open>get_incoming_angles\<close>: the generator yields for the first interface, then runs the
  loop over the positions \<open>1 .. len(interfaces) - 1\<close>, with the previous interface as
  the neighbour.
\<close>

fun incoming_loop ::
  "('p \<Rightarrow> 'o \<Rightarrow> 'p \<Rightarrow> nat ndarray \<Rightarrow> nat ndarray \<Rightarrow> real ndarray \<times> real ndarray) \<Rightarrow>
   'f Rays \<Rightarrow> ('p, 'o) interface list \<Rightarrow> bool \<Rightarrow> nat list \<Rightarrow>
   real ndarray yielded list \<times> error option" where
  "incoming_loop leg_spherical self interfaces return_distances [] = ([], None)"
| "incoming_loop leg_spherical self interfaces return_distances (interface_idx # todo) =
     (let interface = interfaces ! interface_idx;
          previous_interface = interfaces ! (interface_idx - 1)
      in case are_normals_on_inc_rays_side interface of
           None \<Rightarrow>
             yield (no_value return_distances)
               (incoming_loop leg_spherical self interfaces return_distances todo)
         | Some on_side \<Rightarrow>
             (case layer (ray_indices self) interface_idx of
                Inl e \<Rightarrow> ([], Some e)
              | Inr idx \<Rightarrow>
                  (case layer (ray_indices self) (interface_idx - 1) of
                     Inl e \<Rightarrow> ([], Some e)
                   | Inr idx_previous \<Rightarrow>
                       (let (theta, distances) =
                              leg_spherical (points interface) (orientations interface)
                                (points previous_interface) idx idx_previous;
                            alpha = (if on_side then theta else pi_minus theta)
                        in yield (if return_distances then YPair alpha distances
                                  else YOne distances)
                             (incoming_loop leg_spherical self interfaces return_distances todo)))))"

definition get_incoming_angles ::
  "('p \<Rightarrow> 'o \<Rightarrow> 'p \<Rightarrow> nat ndarray \<Rightarrow> nat ndarray \<Rightarrow> real ndarray \<times> real ndarray) \<Rightarrow>
   'f Rays \<Rightarrow> ('p, 'o) interface list \<Rightarrow> bool \<Rightarrow>
   real ndarray yielded list \<times> error option" where
  "get_incoming_angles leg_spherical self interfaces return_distances =
     yield (no_value return_distances)
       (incoming_loop leg_spherical self interfaces return_distances [1..<length interfaces])"

text \<open>
  What the body of either loop yields for an interface with a side convention, from
  the \<open>theta\<close> and \<open>r\<close> of its legs; and what the generators yield for the interface at
  position \<open>k\<close> when the indices of the rays exist there.
\<close>

definition angle_element ::
  "bool \<Rightarrow> bool \<Rightarrow> real ndarray \<times> real ndarray \<Rightarrow> real ndarray yielded" where
  "angle_element return_distances on_side leg =
     (let alpha = (if on_side then fst leg else pi_minus (fst leg))
      in if return_distances then YPair alpha (snd leg) else YOne (snd leg))"

definition outgoing_element ::
  "('p \<Rightarrow> 'o \<Rightarrow> 'p \<Rightarrow> nat ndarray \<Rightarrow> nat ndarray \<Rightarrow> real ndarray \<times> real ndarray) \<Rightarrow>
   'f Rays \<Rightarrow> ('p, 'o) interface list \<Rightarrow> bool \<Rightarrow> nat \<Rightarrow> real ndarray yielded" where
  "outgoing_element g self ifs rd k =
     (case are_normals_on_out_rays_side (ifs ! k) of
        None \<Rightarrow> no_value rd
      | Some on_side \<Rightarrow>
          angle_element rd on_side
            (g (points (ifs ! k)) (orientations (ifs ! k)) (points (ifs ! (k + 1)))
               (projr (layer (ray_indices self) k)) (projr (layer (ray_indices self) (k + 1)))))"

definition incoming_element ::
  "('p \<Rightarrow> 'o \<Rightarrow> 'p \<Rightarrow> nat ndarray \<Rightarrow> nat ndarray \<Rightarrow> real ndarray \<times> real ndarray) \<Rightarrow>
   'f Rays \<Rightarrow> ('p, 'o) interface list \<Rightarrow> bool \<Rightarrow> nat \<Rightarrow> real ndarray yielded" where
  "incoming_element g self ifs rd k =
     (case are_normals_on_inc_rays_side (ifs ! k) of
        None \<Rightarrow> no_value rd
      | Some on_side \<Rightarrow>
          angle_element rd on_side
            (g (points (ifs ! k)) (orientations (ifs ! k)) (points (ifs ! (k - 1)))
               (projr (layer (ray_indices self) k)) (projr (layer (ray_indices self) (k - 1)))))"

subsection \<open>Invariants of the caches\<close>

text \<open>
  \<open>dist_cache_ok\<close>: every distance in the cache is what the capability returns for its
  key.  \<open>result_cache_ok\<close>: every cached result was built by \<open>Rays.__init__\<close> for the
  path that is its key.  Both hold of empty caches and are kept by \<open>_solve\<close>.

  \<open>distance_used\<close> is the distance \<open>consecutive_times\<close> works with and
  \<open>after_distance\<close> the solver once it has it.
\<close>

definition dist_cache_ok :: "'f caps \<Rightarrow> 'f FermatSolver \<Rightarrow> bool" where
  "dist_cache_ok caps self =
     (\<forall>a b d. cached_distance self (a, b) = Some d \<longrightarrow>
        d = distance_pairwise caps a b (solver_dtype self))"

definition result_cache_ok :: "'f FermatSolver \<Rightarrow> bool" where
  "result_cache_ok self =
     (\<forall>path r. cached_result self path = Some r \<longrightarrow>
        (\<exists>oid t ii. Rays_init oid t ii path = Inr r))"

definition distance_used :: "'f caps \<Rightarrow> 'f FermatSolver \<Rightarrow> points \<Rightarrow> points \<Rightarrow> 'f ndarray" where
  "distance_used caps self a b =
     (case cached_distance self (a, b) of
        Some d \<Rightarrow> d
      | None \<Rightarrow> distance_pairwise caps a b (solver_dtype self))"

definition after_distance :: "'f caps \<Rightarrow> 'f FermatSolver \<Rightarrow> points \<Rightarrow> points \<Rightarrow> 'f FermatSolver" where
  "after_distance caps self a b =
     (case cached_distance self (a, b) of
        Some d \<Rightarrow> self
      | None \<Rightarrow> self\<lparr>num_euc_distance := num_euc_distance self + 1,
                  cached_distance := (cached_distance self)
                     ((a, b) \<mapsto> distance_pairwise caps a b (solver_dtype self))\<rparr>)"

text \<open>
  \<open>later s1 s2\<close>: the solver \<open>s2\<close> is \<open>s1\<close> later in the same lifetime of the caches.
  The dtypes are the same, every entry of the two caches is still there, no path of
  three elements has entered the result cache, and no identity is given twice.
\<close>

definition later :: "'f FermatSolver \<Rightarrow> 'f FermatSolver \<Rightarrow> bool" where
  "later s1 s2 =
     (solver_dtype s2 = solver_dtype s1 \<and> dtype_indices s2 = dtype_indices s1
      \<and> cached_distance s1 \<subseteq>\<^sub>m cached_distance s2
      \<and> cached_result s1 \<subseteq>\<^sub>m cached_result s2
      \<and> (\<forall>q. length q = 3 \<longrightarrow> cached_result s2 q = cached_result s1 q)
      \<and> next_oid s1 \<le> next_oid s2)"


subsection \<open>A small scenario\<close>

text \<open>
  A probe of one point, a front wall of two points and a grid of one point; synthetic
  distances; a solver with empty caches, times in float64 and indices in uint8.
\<close>

definition float64 :: dtype where "float64 = DType (CHR ''f'') 8"
definition uint8 :: dtype where "uint8 = DType (CHR ''u'') 1"

definition probe :: points where "probe = Points 0 1"
definition frontwall :: points where "frontwall = Points 1 2"
definition grid :: points where "grid = Points 2 1"

definition example_distance :: "points \<Rightarrow> points \<Rightarrow> dtype \<Rightarrow> real ndarray" where
  "example_distance p q dt =
     \<lparr>dtype = dt, shape = [plen p, plen q],
      data = map (\<lambda>k. real (pid p + pid q + 2 * k + 1)) [0..<plen p * plen q]\<rparr>"

definition example_caps :: "real caps" where
  "example_caps =
     \<lparr>distance_pairwise = example_distance,
      find_minimum_times = find_minimum_times_spec,
      expand_rays_kernel = (\<lambda>ii ini n m p d. [])\<rparr>"

definition new_solver :: "real FermatSolver" where
  "new_solver =
     \<lparr>solver_dtype = float64, dtype_indices = uint8,
      cached_distance = Map.empty, cached_result = Map.empty,
      num_minimization = 0, num_euc_distance = 0, next_oid = 0\<rparr>"

definition example_path3 :: "real elem list" where
  "example_path3 = [P probe, V 1, P frontwall]"

definition example_path5 :: "real elem list" where
  "example_path5 = [P probe, V 1, P frontwall, V 2, P grid]"

definition example_times :: "real ndarray" where
  "example_times = \<lparr>dtype = float64, shape = [1, 2], data = [2, 4]\<rparr>"

definition example_interior :: "nat ndarray" where
  "example_interior = \<lparr>dtype = uint8, shape = [0, 1, 2], data = []\<rparr>"


definition example_new_interface :: "nat ndarray" where
  "example_new_interface = \<lparr>dtype = uint8, shape = [1, 3], data = [1, 0, 1]\<rparr>"

text \<open>
  A probe of 257 points with indices in uint8, and times of the shape its rays to the
  grid have.
\<close>

definition wide_probe :: points where "wide_probe = Points 3 257"

definition wide_path :: "real elem list" where
  "wide_path = [P wide_probe, V 1, P grid]"

definition wide_times :: "real ndarray" where
  "wide_times = \<lparr>dtype = float64, shape = [257, 1], data = replicate 257 0\<rparr>"

definition wide_interior :: "nat ndarray" where
  "wide_interior = \<lparr>dtype = uint8, shape = [0, 257, 1], data = []\<rparr>"

text \<open>
  The rays between one point of the probe and one point of the grid, the two interfaces
  with normals on the side of the rays, and a geometry in which every leg runs along
  the normal (\<open>theta = 0\<close>) and is of length 2.
\<close>

definition example_rays :: "real Rays" where
  "example_rays =
     \<lparr>ray_oid = 0,
      ray_times = \<lparr>dtype = float64, shape = [1, 1], data = [2]\<rparr>,
      ray_indices = \<lparr>dtype = uint8, shape = [2, 1, 1], data = [0, 0]\<rparr>,
      ray_fermat_path = [P probe, V 1, P grid]\<rparr>"

definition example_interfaces :: "(points, unit) interface list" where
  "example_interfaces =
     [\<lparr>points = probe, orientations = (),
       are_normals_on_inc_rays_side = None, are_normals_on_out_rays_side = Some True\<rparr>,
      \<lparr>points = grid, orientations = (),
       are_normals_on_inc_rays_side = Some True, are_normals_on_out_rays_side = None\<rparr>]"

definition example_theta :: "real ndarray" where
  "example_theta = \<lparr>dtype = float64, shape = [1, 1], data = [0]\<rparr>"

definition example_r :: "real ndarray" where
  "example_r = \<lparr>dtype = float64, shape = [1, 1], data = [2]\<rparr>"

definition example_leg ::
  "points \<Rightarrow> unit \<Rightarrow> points \<Rightarrow> nat ndarray \<Rightarrow> nat ndarray \<Rightarrow> real ndarray \<times> real ndarray" where
  "example_leg pts ori other idx idx_other = (example_theta, example_r)"


definition interior_path :: "real elem list" where
  "interior_path = [P frontwall, V 1, P frontwall, V 2, P grid]"

definition interior_times :: "real ndarray" where
  "interior_times = \<lparr>dtype = float64, shape = [2, 1], data = [3, 5]\<rparr>"

definition crossing_interior :: "nat ndarray" where
  "crossing_interior = \<lparr>dtype = uint8, shape = [1, 2, 1], data = [1, 0]\<rparr>"

section \<open>Properties\<close>

subsection \<open>Arrays and indices\<close>

lemma concat_rows_nth:
  "\<forall>r \<in> set rows. length r = m \<Longrightarrow> i < length rows \<Longrightarrow> j < m \<Longrightarrow>
   concat rows ! (i * m + j) = rows ! i ! j"
proof (induction rows arbitrary: i)
  case Nil
  then show ?case by simp
next
  case (Cons r rows)
  show ?case
  proof (cases i)
    case 0
    with Cons.prems show ?thesis by (simp add: nth_append)
  next
    case (Suc k)
    with Cons.prems have "concat rows ! (k * m + j) = rows ! k ! j"
      by (intro Cons.IH) auto
    moreover have "length r = m" using Cons.prems by simp
    ultimately show ?thesis using Suc by (simp add: nth_append)
  qed
qed

lemma concat_rows_length:
  "\<forall>r \<in> set rows. length r = m \<Longrightarrow> length (concat rows) = length rows * m"
  by (induction rows) auto

lemma repeat_arange_nth:
  "i < n \<Longrightarrow> j < m \<Longrightarrow> repeat (arange n) m ! (i * m + j) = i"
  unfolding repeat_def arange_def
  by (subst concat_rows_nth[where m = m]) auto

lemma tile_arange_nth:
  "i < n \<Longrightarrow> j < m \<Longrightarrow> tile (arange m) n ! (i * m + j) = j"
  unfolding tile_def arange_def
  by (subst concat_rows_nth[where m = m]) auto

lemma repeat_arange_length: "length (repeat (arange n) m) = n * m"
  unfolding repeat_def arange_def
  by (subst concat_rows_length[where m = m]) auto

lemma tile_arange_length: "length (tile (arange m) n) = n * m"
  unfolding tile_def arange_def
  by (subst concat_rows_length[where m = m]) auto

lemma cell_in_range: "i < n \<Longrightarrow> j < m \<Longrightarrow> i * m + j < n * (m::nat)"
proof -
  assume a: "i < n" "j < m"
  then have "i * m + j < i * m + m" by simp
  also have "\<dots> = Suc i * m" by simp
  also have "\<dots> \<le> n * m" using a(1) by (intro mult_le_mono1) simp
  finally show ?thesis .
qed

lemma make_indices_data:
  assumes "shape ii = [dm2, n, m]" "length (data ii) = dm2 * n * m"
  shows "make_indices ii = Inr \<lparr>dtype = dtype ii, shape = [dm2 + 2, n, m],
            data = map (cast_index (dtype ii)) (repeat (arange n) m) @ data ii
                   @ map (cast_index (dtype ii)) (tile (arange m) n)\<rparr>"
  using assms
  by (simp add: make_indices_def set_layers_def Let_def repeat_arange_length
      tile_arange_length algebra_simps)

subsection \<open>Splitting and joining paths\<close>

lemma last_take_nth:
  assumes "k \<le> length xs" "0 < k"
  shows "last (take k xs) = xs ! (k - 1)"
proof -
  have "take k xs \<noteq> []" using assms by auto
  then have "last (take k xs) = take k xs ! (length (take k xs) - 1)"
    by (rule last_conv_nth)
  also have "length (take k xs) = k" using assms by simp
  finally show ?thesis using assms by simp
qed

lemma split_queue_ok:
  assumes "length path mod 2 = 1" "5 \<le> length path"
  shows "split_queue path = Inr (take (length path - 2) path, drop (length path - 3) path)"
proof -
  have "(length path - 2) mod 2 = 1" using assms by presburger
  then show ?thesis using assms
    by (auto simp add: split_queue_def FermatPath_new_def min_def)
qed

lemma split_head_ok:
  assumes "length path mod 2 = 1" "5 \<le> length path"
  shows "split_head path = Inr (take 3 path, drop 2 path)"
proof -
  have "(length path - 2) mod 2 = 1" using assms by presburger
  then show ?thesis using assms
    by (simp add: split_head_def FermatPath_new_def min_def)
qed

lemma add_queue:
  assumes "length path mod 2 = 1" "5 \<le> length path"
  shows "FermatPath_add (take (length path - 2) path) (drop (length path - 3) path) = Inr path"
proof -
  let ?n = "length path"
  have l: "last (take (?n - 2) path) = path ! (?n - 3)"
  proof -
    have "last (take (?n - 2) path) = path ! (?n - 2 - 1)"
      using assms by (intro last_take_nth) auto
    moreover have "?n - 2 - 1 = ?n - 3" by simp
    ultimately show ?thesis by simp
  qed
  have h: "hd (drop (?n - 3) path) = path ! (?n - 3)"
    using assms by (subst hd_drop_conv_nth) auto
  have d: "drop 1 (drop (?n - 3) path) = drop (?n - 2) path"
    using assms by (simp add: numeral_3_eq_3 numeral_2_eq_2 Suc_diff_Suc)
  have ne: "take (?n - 2) path \<noteq> []" "drop (?n - 3) path \<noteq> []"
    using assms by auto
  show ?thesis
    unfolding FermatPath_add_def using ne l h assms
    by (simp only: d append_take_drop_id FermatPath_new_def) simp
qed

lemma add_head:
  assumes "length path mod 2 = 1" "5 \<le> length path"
  shows "FermatPath_add (take 3 path) (drop 2 path) = Inr path"
proof -
  have l: "last (take 3 path) = path ! 2"
    using assms last_take_nth[of 3 path] by simp
  have h: "hd (drop 2 path) = path ! 2"
    using assms by (subst hd_drop_conv_nth) auto
  have d: "drop 1 (drop 2 path) = drop 3 path"
    by (simp add: numeral_3_eq_3)
  have ne: "take 3 path \<noteq> []" "drop 2 path \<noteq> []"
    using assms by auto
  show ?thesis
    unfolding FermatPath_add_def using ne l h assms
    by (simp only: d append_take_drop_id FermatPath_new_def) simp
qed

text \<open>
  Claim C9.  For every FermatPath of at least five elements, \<open>split_queue\<close> succeeds
  and the sum \<open>head + tail\<close> of its two parts succeeds and is the path again; the same
  holds of \<open>split_head\<close>.  A FermatPath is a tuple that \<open>__new__\<close> accepts (odd length,
  at least three) and that alternates as the class documents, so that the element
  compared at the junction is a point-set.
\<close>

theorem split_then_add_round_trip:
  assumes "FermatPath_new path = Inr path" and "alternates path" and "5 \<le> length path"
  shows "(\<exists>head tail. split_queue path = Inr (head, tail) \<and> FermatPath_add head tail = Inr path)
       \<and> (\<exists>head tail. split_head path = Inr (head, tail) \<and> FermatPath_add head tail = Inr path)"
proof -
  have odd: "length path mod 2 = 1"
    using assms(1) by (auto simp: FermatPath_new_def split: if_splits)
  show ?thesis
    using split_queue_ok[OF odd assms(3)] add_queue[OF odd assms(3)]
      split_head_ok[OF odd assms(3)] add_head[OF odd assms(3)]
    by simp
qed

text \<open>The path probe, front wall, grid splits at the front wall and joins again.\<close>

theorem split_then_add_round_trip_witness:
  "split_queue example_path5 = Inr ([P probe, V 1, P frontwall], [P frontwall, V 2, P grid])
   \<and> FermatPath_add [P probe, V 1, P frontwall] [P frontwall, V 2, P grid] = Inr example_path5
   \<and> split_head example_path5 = Inr ([P probe, V 1, P frontwall], [P frontwall, V 2, P grid])"
proof -
  have v: "FermatPath_new example_path5 = Inr example_path5"
    by (simp add: example_path5_def FermatPath_new_def)
  have a: "alternates example_path5" by (simp add: example_path5_def)
  have l: "5 \<le> length example_path5" by (simp add: example_path5_def)
  have q: "split_queue example_path5 = Inr ([P probe, V 1, P frontwall], [P frontwall, V 2, P grid])"
    by (simp add: example_path5_def split_queue_def FermatPath_new_def)
  have h: "split_head example_path5 = Inr ([P probe, V 1, P frontwall], [P frontwall, V 2, P grid])"
    by (simp add: example_path5_def split_head_def FermatPath_new_def)
  from split_then_add_round_trip[OF v a l] q h show ?thesis by simp
qed

subsection \<open>Expanding rays without interior interfaces\<close>

text \<open>
  Claim C8.  For an \<open>n\<close> by \<open>p\<close> array \<open>indices_new_interface\<close> and an empty array of
  interior indices of shape \<open>(0, n, m)\<close>, \<open>expand_rays\<close> returns
  \<open>indices_new_interface\<close> under the shape \<open>(1, n, p)\<close>: same dtype, same buffer.
\<close>

theorem expand_rays_no_interior:
  assumes "shape ii = [0, n, m]" and "shape ini = [n, p]"
  shows "expand_rays k ii ini = Inr (ini\<lparr>shape := [1, n, p]\<rparr>)"
  using assms by (simp add: expand_rays_def reshape_def)

text \<open>An array of shape \<open>(1, 3)\<close> comes back under the shape \<open>(1, 1, 3)\<close>.\<close>

theorem expand_rays_no_interior_witness:
  "expand_rays (expand_rays_kernel example_caps) example_interior example_new_interface
     = Inr \<lparr>dtype = uint8, shape = [1, 1, 3], data = [1, 0, 1]\<rparr>"
  using expand_rays_no_interior[of example_interior 1 2 example_new_interface 3
      "expand_rays_kernel example_caps"]
  by (simp add: example_interior_def example_new_interface_def)

subsection \<open>Construction of Rays\<close>

lemma Rays_init_fields:
  assumes "Rays_init oid t ii path = Inr r"
  shows "ray_times r = t \<and> ray_oid r = oid \<and> ray_fermat_path r = path
       \<and> make_indices ii = Inr (ray_indices r)
       \<and> kind (dtype ii) = CHR ''u'' \<and> kind (dtype t) = CHR ''f''
       \<and> (\<exists>n m. shape t = [n, m] \<and> shape ii = [num_points_sets path - 2, n, m]
            \<and> 2 \<le> num_points_sets path
            \<and> len_elem (hd (path_points path)) = Inr n
            \<and> len_elem (last (path_points path)) = Inr m)"
proof -
  from assms have nd: "ndim ii = 3" "shape t = tl (shape ii)"
    by (auto simp: Rays_init_def split: if_splits)
  then obtain d n m where sh: "shape ii = [d, n, m]"
    by (auto simp: ndim_def length_Suc_conv numeral_3_eq_3)
  show ?thesis using assms sh nd
    by (auto simp: Rays_init_def ndim_def split: if_splits list.splits sum.splits)
qed

lemma Rays_init_indices:
  assumes "wf_array ii" and "Rays_init oid t ii path = Inr r" and "shape t = [n, m]"
  shows "ray_indices r =
           \<lparr>dtype = dtype ii, shape = [num_points_sets path, n, m],
            data = map (cast_index (dtype ii)) (repeat (arange n) m) @ data ii
                   @ map (cast_index (dtype ii)) (tile (arange m) n)\<rparr>
         \<and> shape ii = [num_points_sets path - 2, n, m] \<and> 2 \<le> num_points_sets path"
proof -
  from Rays_init_fields[OF assms(2)] assms(3)
  have mk: "make_indices ii = Inr (ray_indices r)"
    and sh: "shape ii = [num_points_sets path - 2, n, m]"
    and ge: "2 \<le> num_points_sets path"
    by auto
  have len: "length (data ii) = (num_points_sets path - 2) * n * m"
    using assms(1) sh by (simp add: wf_array_def)
  from make_indices_data[OF sh len] mk ge show ?thesis using sh by simp
qed

lemma Rays_init_indices_cells:
  assumes "wf_array ii" and "Rays_init oid t ii path = Inr r" and "shape t = [n, m]"
    and "i < n" and "j < m"
  shows "at3 (ray_indices r) 0 i j = cast_index (dtype ii) i"
    and "at3 (ray_indices r) (num_points_sets path - 1) i j = cast_index (dtype ii) j"
proof -
  let ?d = "num_points_sets path"
  let ?L0 = "map (cast_index (dtype ii)) (repeat (arange n) m)"
  let ?L1 = "map (cast_index (dtype ii)) (tile (arange m) n)"
  from Rays_init_indices[OF assms(1-3)]
  have ri: "ray_indices r = \<lparr>dtype = dtype ii, shape = [?d, n, m],
              data = ?L0 @ data ii @ ?L1\<rparr>"
    and sh: "shape ii = [?d - 2, n, m]" and ge: "2 \<le> ?d"
    by auto
  have len: "length (data ii) = (?d - 2) * n * m"
    using assms(1) sh by (simp add: wf_array_def)
  have c: "i * m + j < n * m" using assms(4,5) by (rule cell_in_range)
  have l0: "length ?L0 = n * m" by (simp add: repeat_arange_length)
  show "at3 (ray_indices r) 0 i j = cast_index (dtype ii) i"
    using c l0 assms(4,5)
    by (simp add: ri at3_def nth_append repeat_arange_nth repeat_arange_length)
  have idx: "((?d - 1) * n + i) * m + j = n * m + (?d - 2) * n * m + (i * m + j)"
  proof -
    have "?d - 1 = Suc (?d - 2)" using ge by simp
    then show ?thesis by (simp add: algebra_simps)
  qed
  have "at3 (ray_indices r) (?d - 1) i j
          = (?L0 @ data ii @ ?L1) ! (((?d - 1) * n + i) * m + j)"
    by (simp add: ri at3_def)
  also have "\<dots> = (?L0 @ data ii @ ?L1) ! (n * m + (?d - 2) * n * m + (i * m + j))"
    by (simp only: idx)
  also have "\<dots> = ?L1 ! (i * m + j)"
    using l0 len by (simp add: nth_append)
  also have "\<dots> = cast_index (dtype ii) j"
    using c assms(4,5) by (simp add: tile_arange_length tile_arange_nth)
  finally show "at3 (ray_indices r) (?d - 1) i j = cast_index (dtype ii) j" .
qed

text \<open>
  Claim C10.  When \<open>Rays(times, interior_indices, path)\<close> is constructed, the property
  \<open>times\<close> is the array passed in and the property \<open>interior_indices\<close>
  (\<open>indices[1:-1]\<close>) is the array of interior indices passed in: same dtype, same
  shape, same buffer.
\<close>

theorem Rays_init_keeps_times_and_interior:
  assumes "wf_array ii" and "Rays_init oid t ii path = Inr r"
  shows "ray_times r = t \<and> interior_indices r = ii"
proof -
  from Rays_init_fields[OF assms(2)] obtain n m where
    t: "ray_times r = t" and st: "shape t = [n, m]"
    by auto
  from Rays_init_indices[OF assms(1,2) st]
  have ri: "ray_indices r = \<lparr>dtype = dtype ii, shape = [num_points_sets path, n, m],
              data = map (cast_index (dtype ii)) (repeat (arange n) m) @ data ii
                     @ map (cast_index (dtype ii)) (tile (arange m) n)\<rparr>"
    and sh: "shape ii = [num_points_sets path - 2, n, m]"
    by auto
  have len: "length (data ii) = (num_points_sets path - 2) * n * m"
    using assms(1) sh by (simp add: wf_array_def)
  have "interior_indices r = ii"
    using len sh
    by (simp add: interior_indices_def slice_1_m1_def ri repeat_arange_length)
  with t show ?thesis by simp
qed

text \<open>
  Rays from the two points of a front wall through a second front wall to the grid,
  crossing at the interior interface: the interior indices \<open>[1, 0]\<close> come back, between
  the layer of the start points and the layer of the end points.
\<close>

theorem Rays_init_keeps_times_and_interior_witness:
  "wf_array crossing_interior
   \<and> \<not> isl (Rays_init 0 interior_times crossing_interior interior_path)
   \<and> ray_times (projr (Rays_init 0 interior_times crossing_interior interior_path))
       = \<lparr>dtype = float64, shape = [2, 1], data = [3, 5]\<rparr>
   \<and> interior_indices (projr (Rays_init 0 interior_times crossing_interior interior_path))
       = \<lparr>dtype = uint8, shape = [1, 2, 1], data = [1, 0]\<rparr>
   \<and> data (ray_indices (projr (Rays_init 0 interior_times crossing_interior interior_path)))
       = [0, 1, 1, 0, 0, 0]"
proof -
  let ?R = "Rays_init 0 interior_times crossing_interior interior_path"
  have w: "wf_array crossing_interior" by (simp add: wf_array_def crossing_interior_def)
  have ok: "\<not> isl ?R" by code_simp
  then have eq: "?R = Inr (projr ?R)" by simp
  have d: "data (ray_indices (projr ?R)) = [0, 1, 1, 0, 0, 0]" by code_simp
  from Rays_init_keeps_times_and_interior[OF w eq] w ok d show ?thesis
    by (simp add: interior_times_def crossing_interior_def)
qed

text \<open>
  Claim C6, as the code has it.  For a constructed Rays object over a path of \<open>d\<close>
  point-sets, \<open>n\<close> start points and \<open>m\<close> end points, and \<open>i < n\<close>, \<open>j < m\<close>:
  \<open>indices[0, i, j]\<close> is \<open>i\<close> and \<open>indices[d-1, i, j]\<close> is \<open>j\<close>, both modulo \<open>2 ^ bits\<close>
  of the unsigned dtype of the indices; they are \<open>i\<close> and \<open>j\<close> themselves when \<open>n\<close> and
  \<open>m\<close> do not exceed \<open>2 ^ bits\<close>.
\<close>

theorem Rays_init_first_last_indices:
  assumes "wf_array ii" and "Rays_init oid t ii path = Inr r"
    and "len_elem (hd (path_points path)) = Inr n"
    and "len_elem (last (path_points path)) = Inr m"
    and "i < n" and "j < m"
  shows "at3 (ray_indices r) 0 i j = i mod 2 ^ (8 * itemsize (dtype (ray_indices r)))
       \<and> at3 (ray_indices r) (num_points_sets path - 1) i j
           = j mod 2 ^ (8 * itemsize (dtype (ray_indices r)))
       \<and> (n \<le> 2 ^ (8 * itemsize (dtype (ray_indices r))) \<longrightarrow> at3 (ray_indices r) 0 i j = i)
       \<and> (m \<le> 2 ^ (8 * itemsize (dtype (ray_indices r)))
            \<longrightarrow> at3 (ray_indices r) (num_points_sets path - 1) i j = j)"
proof -
  from Rays_init_fields[OF assms(2)] assms(3,4)
  have st: "shape t = [n, m]" and k: "kind (dtype ii) = CHR ''u''"
    by auto
  from Rays_init_indices[OF assms(1,2) st]
  have dt: "dtype (ray_indices r) = dtype ii" by simp
  from Rays_init_indices_cells[OF assms(1,2) st assms(5,6)] k dt assms(5,6)
  show ?thesis by (auto simp: cast_index_def)
qed

text \<open>The rays from the probe to the front wall: ray \<open>(0, 1)\<close> starts at 0 and ends at 1.\<close>

theorem Rays_init_first_last_indices_witness:
  "\<not> isl (Rays_init 0 example_times example_interior example_path3)
   \<and> at3 (ray_indices (projr (Rays_init 0 example_times example_interior example_path3))) 0 0 1 = 0
   \<and> at3 (ray_indices (projr (Rays_init 0 example_times example_interior example_path3))) 1 0 1 = 1"
proof -
  let ?r = "projr (Rays_init 0 example_times example_interior example_path3)"
  have w: "wf_array example_interior" by (simp add: wf_array_def example_interior_def)
  have ok: "\<not> isl (Rays_init 0 example_times example_interior example_path3)"
    by code_simp
  then have eq: "Rays_init 0 example_times example_interior example_path3 = Inr ?r"
    by simp
  have n: "len_elem (hd (path_points example_path3)) = Inr 1"
    by (simp add: example_path3_def path_points_def probe_def)
  have m: "len_elem (last (path_points example_path3)) = Inr 2"
    by (simp add: example_path3_def path_points_def frontwall_def)
  have d: "num_points_sets example_path3 - Suc 0 = Suc 0"
    by (simp add: example_path3_def num_points_sets_def)
  have b: "itemsize (dtype (ray_indices ?r)) = 1" by code_simp
  from Rays_init_first_last_indices[OF w eq n m, of 0 1] ok show ?thesis
    by (simp add: d b)
qed

text \<open>
  Claim C6 as stated fails once the first point-set has more points than the dtype of
  the indices can count: with 257 start points and indices in uint8 the object is
  constructed and \<open>indices[0, 256, 0]\<close> is 0, not 256.
\<close>

theorem Rays_init_first_index_wraps:
  "\<not> isl (Rays_init 0 wide_times wide_interior wide_path)
   \<and> num_points_sets wide_path = 2
   \<and> len_elem (hd (path_points wide_path)) = Inr 257
   \<and> at3 (ray_indices (projr (Rays_init 0 wide_times wide_interior wide_path))) 0 256 0 \<noteq> 256"
proof -
  let ?r = "projr (Rays_init 0 wide_times wide_interior wide_path)"
  have w: "wf_array wide_interior" by (simp add: wf_array_def wide_interior_def)
  have ok: "\<not> isl (Rays_init 0 wide_times wide_interior wide_path)"
    by (simp add: Rays_init_def wide_times_def wide_interior_def wide_path_def ndim_def
        path_points_def wide_probe_def grid_def num_points_sets_def uint8_def float64_def
        make_indices_def Let_def)
  then have eq: "Rays_init 0 wide_times wide_interior wide_path = Inr ?r"
    by simp
  have st: "shape wide_times = [257, 1]" by (simp add: wide_times_def)
  from Rays_init_indices_cells(1)[OF w eq st, of 256 0]
  have "at3 (ray_indices ?r) 0 256 0 = cast_index (dtype wide_interior) 256" by simp
  also have "\<dots> = 0" by (simp add: cast_index_def wide_interior_def uint8_def)
  finally show ?thesis using ok
    by (simp add: wide_path_def num_points_sets_def path_points_def wide_probe_def)
qed

subsection \<open>The base case\<close>

lemma path_points3: "path_points [a, b, c] = [a, c]"
  by (simp add: path_points_def)

lemma make_rays_two_PVP:
  "make_rays_two_interfaces oid t [P a, V v, P b] dti =
     Rays_init oid t \<lparr>dtype = dti, shape = [0, plen a, plen b], data = []\<rparr> [P a, V v, P b]"
  by (simp add: make_rays_two_interfaces_def num_points_sets_def path_points3)

lemma consecutive_times_PVP:
  "consecutive_times caps self [P a, V v, P b] =
     (case Rays_init (next_oid self) (true_divide (distance_used caps self a b) v)
             \<lparr>dtype = dtype_indices self, shape = [0, plen a, plen b], data = []\<rparr>
             [P a, V v, P b] of
        Inl e \<Rightarrow> Inl e
      | Inr res \<Rightarrow> Inr (res, (after_distance caps self a b)\<lparr>next_oid := next_oid self + 1\<rparr>))"
  by (cases "cached_distance self (a, b)")
     (simp_all add: consecutive_times_def Let_def make_rays_two_PVP distance_used_def
        after_distance_def cong: sum.case_cong)

lemma consecutive_times_Inr_path:
  "consecutive_times caps self path = Inr x \<Longrightarrow> \<exists>a v b. path = [P a, V v, P b]"
  by (auto simp: consecutive_times_def split: list.splits elem.splits)

lemma true_divide_at2:
  assumes "wf_array d" and "shape d = [n, m]" and "i < n" and "j < m"
  shows "at2 (true_divide d v) i j = at2 d i j / v"
proof -
  have "i * m + j < n * m" using assms(3,4) by (rule cell_in_range)
  then have "i * m + j < length (data d)" using assms(1,2) by (simp add: wf_array_def)
  then show ?thesis using assms(2) by (simp add: at2_def true_divide_def)
qed

lemma distance_used_ok:
  "dist_cache_ok caps self \<Longrightarrow>
   distance_used caps self a b = distance_pairwise caps a b (solver_dtype self)"
  by (auto simp: dist_cache_ok_def distance_used_def split: option.splits)

text \<open>
  Claim C7.  For a path of two point-sets \<open>(start, speed, end)\<close> solved by the base
  case, \<open>times[i, j]\<close> is the cell \<open>[i, j]\<close> of the matrix the pairwise-distance
  capability gives for \<open>(start, end)\<close>, divided by \<open>speed\<close>, for every \<open>i\<close> and \<open>j\<close>
  within the two point-sets.  The distance cache holds only what the capability
  returned (\<open>dist_cache_ok\<close>), and the capability returns an array with one item per
  cell.
\<close>

theorem consecutive_times_is_distance_over_speed:
  assumes "dist_cache_ok caps self"
    and "wf_array (distance_pairwise caps a b (solver_dtype self))"
    and "consecutive_times caps self [P a, V speed, P b] = Inr (r, self')"
    and "i < plen a" and "j < plen b"
  shows "at2 (ray_times r) i j
           = at2 (distance_pairwise caps a b (solver_dtype self)) i j / speed"
proof -
  let ?d = "distance_pairwise caps a b (solver_dtype self)"
  from assms(3) have ri: "Rays_init (next_oid self) (true_divide ?d speed)
      \<lparr>dtype = dtype_indices self, shape = [0, plen a, plen b], data = []\<rparr>
      [P a, V speed, P b] = Inr r"
    by (simp add: consecutive_times_PVP distance_used_ok[OF assms(1)] split: sum.splits)
  from Rays_init_fields[OF ri]
  have t: "ray_times r = true_divide ?d speed" and sh: "shape (true_divide ?d speed) = [plen a, plen b]"
    by (auto simp: path_points3)
  from sh have "shape ?d = [plen a, plen b]" by (simp add: true_divide_def)
  from true_divide_at2[OF assms(2) this assms(4,5)] t show ?thesis by simp
qed

text \<open>From the probe to the front wall at speed 1: the time of ray \<open>(0, 1)\<close> is its distance 4.\<close>

theorem consecutive_times_is_distance_over_speed_witness:
  "\<not> isl (consecutive_times example_caps new_solver example_path3)
   \<and> at2 (ray_times (fst (projr (consecutive_times example_caps new_solver example_path3)))) 0 1
       = at2 (example_distance probe frontwall float64) 0 1 / 1
   \<and> at2 (example_distance probe frontwall float64) 0 1 = 4"
proof -
  let ?X = "consecutive_times example_caps new_solver example_path3"
  have ok: "\<not> isl ?X" by code_simp
  then have eq: "consecutive_times example_caps new_solver [P probe, V 1, P frontwall]
      = Inr (fst (projr ?X), snd (projr ?X))"
    by (simp add: example_path3_def)
  have c: "dist_cache_ok example_caps new_solver"
    by (simp add: dist_cache_ok_def new_solver_def)
  have w: "wf_array (distance_pairwise example_caps probe frontwall (solver_dtype new_solver))"
    by (simp add: wf_array_def example_caps_def example_distance_def probe_def frontwall_def)
  have i: "0 < plen probe" by (simp add: probe_def)
  have j: "1 < plen frontwall" by (simp add: frontwall_def)
  have v: "at2 (example_distance probe frontwall float64) 0 1 = 4" by code_simp
  from consecutive_times_is_distance_over_speed[OF c w eq i j] ok v show ?thesis
    by (simp add: example_caps_def new_solver_def)
qed

lemma consecutive_times_state:
  assumes "consecutive_times caps self [P a, V v, P b] = Inr (r, self')"
  shows "self' = (after_distance caps self a b)\<lparr>next_oid := next_oid self + 1\<rparr>"
  using assms by (simp add: consecutive_times_PVP split: sum.splits)

lemma consecutive_times_swapped_key_untouched:
  assumes "consecutive_times caps self [P a, V v, P b] = Inr (r, self')" and "a \<noteq> b"
  shows "cached_distance self' (b, a) = cached_distance self (b, a)"
  using consecutive_times_state[OF assms(1)] assms(2)
  by (simp add: after_distance_def split: option.splits)

text \<open>
  Claim C3 says that a computed distance is stored under \<open>(points1, points2)\<close> and its
  transpose under \<open>(points2, points1)\<close>.  The code builds \<open>rkey\<close> equal to \<open>key\<close>, so
  nothing is ever stored under the swapped key: after the distance from the probe to
  the front wall is computed with empty caches, the cache holds it under
  \<open>(probe, frontwall)\<close> and holds nothing under \<open>(frontwall, probe)\<close>.
\<close>

theorem consecutive_times_stores_no_swapped_key:
  "\<not> isl (consecutive_times example_caps new_solver example_path3)
   \<and> probe \<noteq> frontwall
   \<and> cached_distance (snd (projr (consecutive_times example_caps new_solver example_path3)))
       (probe, frontwall) = Some (example_distance probe frontwall float64)
   \<and> cached_distance (snd (projr (consecutive_times example_caps new_solver example_path3)))
       (frontwall, probe) = None"
  by code_simp

subsection \<open>Memoisation\<close>


lemma solve_rec_hit:
  "cached_result self path = Some r \<Longrightarrow> solve_rec caps self path = Inr (r, self)"
  by (subst solve_rec.simps) simp

lemma solve_rec_base:
  "cached_result self path = None \<Longrightarrow> length path = 3 \<Longrightarrow>
   solve_rec caps self path = consecutive_times caps self path"
  by (subst solve_rec.simps) simp


lemma after_distance_fields:
  "solver_dtype (after_distance caps self a b) = solver_dtype self"
  "dtype_indices (after_distance caps self a b) = dtype_indices self"
  "cached_result (after_distance caps self a b) = cached_result self"
  "num_minimization (after_distance caps self a b) = num_minimization self"
  "next_oid (after_distance caps self a b) = next_oid self"
  by (simp_all add: after_distance_def split: option.splits)

text \<open>
  Within one lifetime of the caches the solver only moves to a later one: entries
  persist across every call of \<open>_solve\<close>.
\<close>

lemma later_refl: "later s s"
  by (simp add: later_def)

lemma later_trans: "later s1 s2 \<Longrightarrow> later s2 s3 \<Longrightarrow> later s1 s3"
  unfolding later_def by (auto intro: map_le_trans)

lemma after_distance_later:
  "later self ((after_distance caps self a b)\<lparr>next_oid := next_oid self + 1\<rparr>)"
  by (auto simp: later_def after_distance_def map_le_def split: option.splits)

lemma solve_rec_later:
  "solve_rec caps self path = Inr (r, s) \<Longrightarrow> later self s"
proof (induction caps self path arbitrary: r s rule: solve_rec.induct)
  case (1 caps self path)
  show ?case
  proof (cases "cached_result self path")
    case (Some r0)
    with "1.prems" show ?thesis by (simp add: solve_rec_hit later_refl)
  next
    case None
    show ?thesis
    proof (cases "length path = 3")
      case True
      with None "1.prems" have ct: "consecutive_times caps self path = Inr (r, s)"
        by (simp add: solve_rec_base)
      then obtain a v b where p: "path = [P a, V v, P b]"
        using consecutive_times_Inr_path by blast
      from ct have "s = (after_distance caps self a b)\<lparr>next_oid := next_oid self + 1\<rparr>"
        unfolding p by (rule consecutive_times_state)
      then show ?thesis using after_distance_later[of self caps a b] by simp
    next
      case False
      from "1.prems" obtain head tail res_head self1 res_tail self2 where
        sq: "split_queue path = Inr (head, tail)" and
        h: "solve_rec caps self head = Inr (res_head, self1)" and
        tl: "solve_rec caps self1 tail = Inr (res_tail, self2)" and
        s: "s = self2\<lparr>num_minimization := num_minimization self2 + 1,
                   next_oid := next_oid self2 + 1,
                   cached_result := (cached_result self2)(path \<mapsto> r)\<rparr>"
        by (subst (asm) solve_rec.simps)
           (auto simp: None False Let_def split: sum.splits prod.splits if_splits)
      from "1.IH"(1)[OF None False sq refl h] have l1: "later self self1" .
      from "1.IH"(2)[OF None False sq refl h refl tl] have l2: "later self1 self2" .
      from later_trans[OF l1 l2] have l: "later self self2" .
      from l None False show ?thesis
        unfolding s later_def by (auto simp: map_le_def domIff)
    qed
  qed
qed

lemma solve_calls_later:
  "solve_calls caps self paths = Inr s \<Longrightarrow> later self s"
proof (induction paths arbitrary: self)
  case Nil
  then show ?case by (simp add: later_refl)
next
  case (Cons p ps)
  then show ?case
    by (auto split: sum.splits intro: later_trans solve_rec_later)
qed



lemma lifetime_without_base_results:
  assumes "solve_calls caps (clear_cache self) paths = Inr s" and "length q = 3"
  shows "cached_result s q = None"
  using solve_calls_later[OF assms(1)] assms(2) by (simp add: later_def clear_cache_def)




lemma solve_rec3_result_ok:
  assumes "result_cache_ok self" and "solve_rec caps self q = Inr (r, s)" and "length q = 3"
  shows "(\<exists>oid t ii. Rays_init oid t ii q = Inr r) \<and> cached_result s = cached_result self"
proof (cases "cached_result self q")
  case (Some r0)
  with assms(2) have "r = r0" "s = self" by (simp_all add: solve_rec_hit)
  with Some assms(1) show ?thesis by (auto simp: result_cache_ok_def)
next
  case None
  with assms have ct: "consecutive_times caps self q = Inr (r, s)"
    by (simp add: solve_rec_base)
  then obtain a v b where p: "q = [P a, V v, P b]"
    using consecutive_times_Inr_path by blast
  from ct show ?thesis
    unfolding p by (auto simp: consecutive_times_PVP after_distance_fields split: sum.splits)
qed

lemma split_queue5:
  "split_queue [a, v, c, w, b] = Inr ([a, v, c], [c, w, b])"
  by (simp add: split_queue_def FermatPath_new_def)

subsection \<open>The recursion on a path of five elements\<close>

text \<open>The function modelled from the spec meets the contract.\<close>

lemma find_minimum_times_spec_contract: "fmt_contract find_minimum_times_spec"
proof -
  have cell: "concat (map (\<lambda>i. map (f i) [0..<m]) [0..<n]) ! (i * m + j) = f i j"
    if "i < n" "j < m" for f :: "nat \<Rightarrow> nat \<Rightarrow> 'b" and n m i j
    using that by (subst concat_rows_nth[where m = m]) auto
  show ?thesis
    unfolding fmt_contract_def find_minimum_times_spec_def Let_def
    by (auto simp: at2_def cell)
qed

text \<open>
  Claim C1.  Let \<open>find_minimum_times\<close> meet its contract.  When \<open>_solve\<close> solves a path
  of five elements (one that is not in the result cache, with a middle point-set that
  is not empty), the two sub-paths of three elements are solved, head first, and
  \<open>times[i, j]\<close> of the result is the minimum over the middle points \<open>k\<close> of
  \<open>head.times[i, k] + tail.times[k, j]\<close>, for every start point \<open>i\<close> and end point
  \<open>j\<close>.
\<close>

theorem five_element_times_is_min_of_leg_sums:
  fixes caps :: "'f::{inverse,plus,linorder} caps"
  assumes contract: "fmt_contract (find_minimum_times caps)"
    and inv: "result_cache_ok self"
    and miss: "cached_result self [a, v, P mid, w, b] = None"
    and mid: "0 < plen mid"
    and solved: "solve_rec caps self [a, v, P mid, w, b] = Inr (res, self')"
  shows "\<exists>res_head self1 res_tail self2 n m.
           solve_rec caps self [a, v, P mid] = Inr (res_head, self1)
         \<and> solve_rec caps self1 [P mid, w, b] = Inr (res_tail, self2)
         \<and> len_elem a = Inr n \<and> len_elem b = Inr m
         \<and> shape (ray_times res) = [n, m]
         \<and> (\<forall>i j. i < n \<and> j < m \<longrightarrow>
               at2 (ray_times res) i j
                 = min_over_middle (ray_times res_head) (ray_times res_tail) i j)"
proof -
  let ?path = "[a, v, P mid, w, b]"
  from solved obtain res_head self1 res_tail self2 indices where
    h: "solve_rec caps self [a, v, P mid] = Inr (res_head, self1)" and
    t: "solve_rec caps self1 [P mid, w, b] = Inr (res_tail, self2)" and
    ri: "Rays_init (next_oid self2)
           (fst (find_minimum_times caps (ray_times res_head) (ray_times res_tail)
                   (solver_dtype self2) (dtype_indices self2)))
           indices ?path = Inr res"
    by (subst (asm) solve_rec.simps)
       (auto simp: miss split_queue5 Let_def split: sum.splits prod.splits if_splits)
  from solve_rec3_result_ok[OF inv h] obtain oh th ih where
    rh: "Rays_init oh th ih [a, v, P mid] = Inr res_head" and
    c1: "cached_result self1 = cached_result self"
    by auto
  from inv c1 have inv1: "result_cache_ok self1" by (simp add: result_cache_ok_def)
  from solve_rec3_result_ok[OF inv1 t] obtain ot tt it where
    rt: "Rays_init ot tt it [P mid, w, b] = Inr res_tail"
    by auto
  from Rays_init_fields[OF rh] obtain n where
    n: "len_elem a = Inr n" and sh: "shape (ray_times res_head) = [n, plen mid]"
    by (auto simp: path_points3)
  from Rays_init_fields[OF rt] obtain m where
    m: "len_elem b = Inr m" and st: "shape (ray_times res_tail) = [plen mid, m]"
    by (auto simp: path_points3)
  let ?T = "fst (find_minimum_times caps (ray_times res_head) (ray_times res_tail)
                   (solver_dtype self2) (dtype_indices self2))"
  from contract sh st mid have
    cells: "\<forall>i j. i < n \<and> j < m \<longrightarrow>
              at2 ?T i j = min_over_middle (ray_times res_head) (ray_times res_tail) i j"
    and shT: "shape ?T = [n, m]"
    unfolding fmt_contract_def by blast+
  from Rays_init_fields[OF ri] have "ray_times res = ?T" by simp
  with h t n m cells shT show ?thesis by auto
qed

text \<open>
  Probe, front wall, grid with speeds 1 and 2: distances 2 and 4 to the two points of
  the front wall, 4 and 6 from them to the grid.
\<close>

theorem five_element_times_is_min_of_leg_sums_witness:
  "0 < plen frontwall
   \<and> \<not> isl (solve_rec example_caps new_solver example_path5)
   \<and> at2 (ray_times (fst (projr (solve_rec example_caps new_solver example_path5)))) 0 0
       = min (2 / 1 + 4 / 2) (4 / 1 + 6 / 2)"
proof -
  let ?X = "solve_rec example_caps new_solver example_path5"
  let ?H = "solve_rec example_caps new_solver [P probe, V 1, P frontwall]"
  let ?T = "solve_rec example_caps (snd (projr ?H)) [P frontwall, V 2, P grid]"
  have ok: "\<not> isl ?X" by code_simp
  then have eq: "solve_rec example_caps new_solver [P probe, V 1, P frontwall, V 2, P grid]
      = Inr (fst (projr ?X), snd (projr ?X))"
    by (simp add: example_path5_def)
  have c: "fmt_contract (find_minimum_times example_caps)"
    by (simp add: example_caps_def find_minimum_times_spec_contract)
  have i: "result_cache_ok new_solver" by (simp add: result_cache_ok_def new_solver_def)
  have ms: "cached_result new_solver [P probe, V 1, P frontwall, V 2, P grid] = None"
    by (simp add: new_solver_def)
  have p: "0 < plen frontwall" by (simp add: frontwall_def)
  from five_element_times_is_min_of_leg_sums[OF c i ms p eq]
  obtain rh s1 rt s2 n m where
    h: "?H = Inr (rh, s1)" and
    t: "solve_rec example_caps s1 [P frontwall, V 2, P grid] = Inr (rt, s2)" and
    n: "len_elem (P probe :: real elem) = Inr n" and m: "len_elem (P grid :: real elem) = Inr m" and
    cells: "\<forall>i j. i < n \<and> j < m \<longrightarrow>
      at2 (ray_times (fst (projr ?X))) i j = min_over_middle (ray_times rh) (ray_times rt) i j"
    by blast
  from n m have "0 < n" "0 < m" by (auto simp: probe_def grid_def)
  with cells have "at2 (ray_times (fst (projr ?X))) 0 0
      = min_over_middle (ray_times rh) (ray_times rt) 0 0" by simp
  moreover from h have rh: "rh = fst (projr ?H)" and s1: "s1 = snd (projr ?H)" by simp_all
  moreover from t s1 have "rt = fst (projr ?T)" by simp
  moreover have "min_over_middle (ray_times (fst (projr ?H))) (ray_times (fst (projr ?T))) 0 0
      = min (2 / 1 + 4 / 2) (4 / 1 + 6 / 2)" by code_simp
  ultimately show ?thesis using p ok by simp
qed

subsection \<open>The caches stay well-formed\<close>

lemma dist_cache_ok_consecutive_times:
  assumes "dist_cache_ok caps self" and "consecutive_times caps self path = Inr (r, s)"
  shows "dist_cache_ok caps s \<and> solver_dtype s = solver_dtype self
       \<and> cached_result s = cached_result self"
proof -
  from assms(2) obtain a v b where p: "path = [P a, V v, P b]"
    using consecutive_times_Inr_path by blast
  from assms(2) have "s = (after_distance caps self a b)\<lparr>next_oid := next_oid self + 1\<rparr>"
    unfolding p by (rule consecutive_times_state)
  with assms(1) show ?thesis
    by (auto simp: dist_cache_ok_def after_distance_def split: option.splits)
qed

lemma solve_rec_keeps_caches_ok:
  "solve_rec caps self path = Inr (r, s) \<Longrightarrow> dist_cache_ok caps self \<Longrightarrow>
   result_cache_ok self \<Longrightarrow>
   dist_cache_ok caps s \<and> result_cache_ok s \<and> solver_dtype s = solver_dtype self"
proof (induction caps self path arbitrary: r s rule: solve_rec.induct)
  case (1 caps self path)
  show ?case
  proof (cases "cached_result self path")
    case (Some r0)
    with "1.prems" show ?thesis by (simp add: solve_rec_hit)
  next
    case None
    show ?thesis
    proof (cases "length path = 3")
      case True
      with None "1.prems"(1) have "consecutive_times caps self path = Inr (r, s)"
        by (simp add: solve_rec_base)
      from dist_cache_ok_consecutive_times[OF "1.prems"(2) this] "1.prems"(3)
      show ?thesis by (simp add: result_cache_ok_def)
    next
      case False
      from "1.prems"(1) obtain head tail res_head self1 res_tail self2 t ii where
        sq: "split_queue path = Inr (head, tail)" and
        h: "solve_rec caps self head = Inr (res_head, self1)" and
        tl: "solve_rec caps self1 tail = Inr (res_tail, self2)" and
        ri: "Rays_init (next_oid self2) t ii path = Inr r" and
        s: "s = self2\<lparr>num_minimization := num_minimization self2 + 1,
                   next_oid := next_oid self2 + 1,
                   cached_result := (cached_result self2)(path \<mapsto> r)\<rparr>"
        by (subst (asm) solve_rec.simps)
           (auto simp: None False Let_def split: sum.splits prod.splits if_splits)
      from "1.IH"(1)[OF None False sq refl h "1.prems"(2,3)]
      have ok1: "dist_cache_ok caps self1" "result_cache_ok self1"
        "solver_dtype self1 = solver_dtype self" by auto
      from "1.IH"(2)[OF None False sq refl h refl tl ok1(1,2)]
      have ok2: "dist_cache_ok caps self2" "result_cache_ok self2"
        "solver_dtype self2 = solver_dtype self1" by auto
      from ok2 ok1(3) ri show ?thesis
        unfolding s by (auto simp: dist_cache_ok_def result_cache_ok_def)
    qed
  qed
qed

lemma clear_cache_ok:
  "dist_cache_ok caps (clear_cache self) \<and> result_cache_ok (clear_cache self)"
  by (simp add: dist_cache_ok_def result_cache_ok_def clear_cache_def)

subsection \<open>The generators of angles\<close>

lemma outgoing_loop_last:
  "snd (outgoing_loop g self ifs rd todo) = None \<Longrightarrow>
   fst (outgoing_loop g self ifs rd todo) \<noteq> []
   \<and> last (fst (outgoing_loop g self ifs rd todo)) = no_value rd"
  by (induction todo)
     (auto simp: yield_def Let_def split: option.splits sum.splits prod.splits if_splits)

lemma outgoing_loop_length:
  "snd (outgoing_loop g self ifs rd todo) = None \<Longrightarrow>
   length (fst (outgoing_loop g self ifs rd todo)) = length todo + 1"
  by (induction todo)
     (auto simp: yield_def Let_def split: option.splits sum.splits prod.splits if_splits)

lemma incoming_loop_length:
  "snd (incoming_loop g self ifs rd todo) = None \<Longrightarrow>
   length (fst (incoming_loop g self ifs rd todo)) = length todo"
  by (induction todo)
     (auto simp: yield_def Let_def split: option.splits sum.splits prod.splits if_splits)

text \<open>
  A generator that ends without an exception has yielded, position by position, the
  elements of the interfaces in their order.
\<close>

lemma outgoing_loop_sequence:
  "snd (outgoing_loop g self ifs rd todo) = None \<Longrightarrow>
   fst (outgoing_loop g self ifs rd todo) = map (outgoing_element g self ifs rd) todo @ [no_value rd]"
  by (induction todo)
     (auto simp: yield_def Let_def outgoing_element_def angle_element_def
        split: option.splits sum.splits prod.splits if_splits)

lemma incoming_loop_sequence:
  "snd (incoming_loop g self ifs rd todo) = None \<Longrightarrow>
   fst (incoming_loop g self ifs rd todo) = map (incoming_element g self ifs rd) todo"
  by (induction todo)
     (auto simp: yield_def Let_def incoming_element_def angle_element_def
        split: option.splits sum.splits prod.splits if_splits)

lemma outgoing_sequence:
  assumes "snd (get_outgoing_angles g self ifs rd) = None"
  shows "fst (get_outgoing_angles g self ifs rd)
           = map (outgoing_element g self ifs rd) [0..<length ifs - 1] @ [no_value rd]"
  using assms by (simp add: get_outgoing_angles_def outgoing_loop_sequence)

lemma incoming_sequence:
  assumes "snd (get_incoming_angles g self ifs rd) = None"
  shows "fst (get_incoming_angles g self ifs rd)
           = no_value rd # map (incoming_element g self ifs rd) [1..<length ifs]"
  using assms by (simp add: get_incoming_angles_def yield_def incoming_loop_sequence)

text \<open>
  Claim C5, as the code has it.  A generator that ends without an exception yields
  one element per interface, the element at position \<open>k\<close> being that of interface \<open>k\<close>
  (\<open>outgoing_sequence\<close>, \<open>incoming_sequence\<close>).  In the sequence of
  \<open>get_outgoing_angles\<close> the element of the last interface (position
  \<open>len(interfaces) - 1\<close>, the last one yielded) is the no-value sentinel: the last
  interface has no outgoing leg.  In the sequence of \<open>get_incoming_angles\<close> the
  element of the first interface (position 0, yielded before anything can raise) is
  the no-value sentinel: the first interface has no incoming leg.
\<close>

theorem outgoing_last_incoming_first_no_value:
  "(snd (get_outgoing_angles g self ifs rd) = None \<longrightarrow>
      last (fst (get_outgoing_angles g self ifs rd)) = no_value rd
      \<and> (ifs \<noteq> [] \<longrightarrow>
           length (fst (get_outgoing_angles g self ifs rd)) = length ifs
           \<and> fst (get_outgoing_angles g self ifs rd) ! (length ifs - 1) = no_value rd))
   \<and> hd (fst (get_incoming_angles g self ifs rd)) = no_value rd
   \<and> fst (get_incoming_angles g self ifs rd) ! 0 = no_value rd
   \<and> (snd (get_incoming_angles g self ifs rd) = None \<and> ifs \<noteq> [] \<longrightarrow>
        length (fst (get_incoming_angles g self ifs rd)) = length ifs)"
proof -
  let ?out = "get_outgoing_angles g self ifs rd"
  let ?inc = "get_incoming_angles g self ifs rd"
  have o: "last (fst ?out) = no_value rd
      \<and> (ifs \<noteq> [] \<longrightarrow> length (fst ?out) = length ifs
            \<and> fst ?out ! (length ifs - 1) = no_value rd)"
    if e: "snd ?out = None"
  proof -
    from e have e': "snd (outgoing_loop g self ifs rd [0..<length ifs - 1]) = None"
      by (simp add: get_outgoing_angles_def)
    from outgoing_loop_last[OF e'] have ne: "fst ?out \<noteq> []" and la: "last (fst ?out) = no_value rd"
      by (simp_all add: get_outgoing_angles_def)
    from outgoing_loop_length[OF e'] have len: "length (fst ?out) = length ifs - 1 + 1"
      by (simp add: get_outgoing_angles_def)
    have "length (fst ?out) = length ifs \<and> fst ?out ! (length ifs - 1) = no_value rd"
      if "ifs \<noteq> []"
    proof -
      from that have "0 < length ifs" by simp
      with len have l: "length (fst ?out) = length ifs" by simp
      from ne have "last (fst ?out) = fst ?out ! (length (fst ?out) - 1)"
        by (rule last_conv_nth)
      with la l show ?thesis by simp
    qed
    with la show ?thesis by simp
  qed
  have i: "hd (fst ?inc) = no_value rd \<and> fst ?inc ! 0 = no_value rd"
    by (simp add: get_incoming_angles_def yield_def)
  have il: "length (fst ?inc) = length ifs" if "snd ?inc = None" "ifs \<noteq> []"
  proof -
    from that(1) have "snd (incoming_loop g self ifs rd [1..<length ifs]) = None"
      by (simp add: get_incoming_angles_def yield_def)
    from incoming_loop_length[OF this]
    have "length (fst ?inc) = Suc (length ifs - 1)"
      by (simp add: get_incoming_angles_def yield_def)
    moreover from that(2) have "0 < length ifs" by simp
    ultimately show ?thesis by simp
  qed
  from o i il show ?thesis by blast
qed

text \<open>
  Two interfaces, distances asked for: both sequences have two elements, and
  \<open>(None, None)\<close> is at position 1 of the one and at position 0 of the other.
\<close>

theorem outgoing_last_incoming_first_no_value_witness:
  "snd (get_outgoing_angles example_leg example_rays example_interfaces True) = None
   \<and> snd (get_incoming_angles example_leg example_rays example_interfaces True) = None
   \<and> example_interfaces \<noteq> []
   \<and> length (fst (get_outgoing_angles example_leg example_rays example_interfaces True)) = 2
   \<and> fst (get_outgoing_angles example_leg example_rays example_interfaces True) ! 1 = YNoneNone
   \<and> fst (get_incoming_angles example_leg example_rays example_interfaces True) ! 0 = YNoneNone
   \<and> length (fst (get_incoming_angles example_leg example_rays example_interfaces True)) = 2"
proof -
  have ok: "snd (get_outgoing_angles example_leg example_rays example_interfaces True) = None"
    by (simp add: get_outgoing_angles_def example_leg_def
      example_rays_def example_interfaces_def layer_def yield_def no_value_def Let_def)
  have ok2: "snd (get_incoming_angles example_leg example_rays example_interfaces True) = None"
    by (simp add: get_incoming_angles_def example_leg_def
      example_rays_def example_interfaces_def layer_def yield_def no_value_def Let_def)
  have ne: "example_interfaces \<noteq> []" by (simp add: example_interfaces_def)
  have len: "length example_interfaces = 2" by (simp add: example_interfaces_def)
  from outgoing_last_incoming_first_no_value[of example_leg example_rays example_interfaces True]
    ok ok2 ne show ?thesis by (simp add: no_value_def len)
qed

text \<open>
  Claim C5 as stated has the two ends swapped: with a first interface that declares
  its normals on the side of the outgoing rays and a last one that declares them on
  the side of the incoming rays, the first element of the outgoing sequence and the
  last element of the incoming sequence are values.
\<close>

theorem outgoing_first_incoming_last_not_no_value:
  "hd (fst (get_outgoing_angles example_leg example_rays example_interfaces True))
     \<noteq> no_value True
   \<and> last (fst (get_incoming_angles example_leg example_rays example_interfaces True))
     \<noteq> no_value True
   \<and> hd (fst (get_outgoing_angles example_leg example_rays example_interfaces False))
     \<noteq> no_value False
   \<and> last (fst (get_incoming_angles example_leg example_rays example_interfaces False))
     \<noteq> no_value False"
  by (simp add: get_outgoing_angles_def get_incoming_angles_def example_leg_def
      example_rays_def example_interfaces_def layer_def yield_def no_value_def Let_def)

text \<open>
  What the two generators yield over two interfaces, for any geometry: the pair of the
  angle and the length when distances are asked for, the length alone when they are
  not.
\<close>

lemma outgoing_two_interfaces:
  assumes "are_normals_on_out_rays_side i0 = Some on_side"
    and "layer (ray_indices self) 0 = Inr idx0" and "layer (ray_indices self) 1 = Inr idx1"
    and "g (points i0) (orientations i0) (points i1) idx0 idx1 = (theta, distances)"
  shows "get_outgoing_angles g self [i0, i1] rd =
           ([if rd then YPair (if on_side then theta else pi_minus theta) distances
             else YOne distances,
             no_value rd], None)"
  using assms by (simp add: get_outgoing_angles_def yield_def)

lemma incoming_two_interfaces:
  assumes "are_normals_on_inc_rays_side i1 = Some on_side"
    and "layer (ray_indices self) 1 = Inr idx1" and "layer (ray_indices self) 0 = Inr idx0"
    and "g (points i1) (orientations i1) (points i0) idx1 idx0 = (theta, distances)"
  shows "get_incoming_angles g self [i0, i1] rd =
           ([no_value rd,
             if rd then YPair (if on_side then theta else pi_minus theta) distances
             else YOne distances], None)"
  using assms by (simp add: get_incoming_angles_def yield_def)

text \<open>With distances asked for, the angle and the length of the leg are yielded together.\<close>

lemma angles_with_distances_example:
  "get_outgoing_angles example_leg example_rays example_interfaces True
     = ([YPair example_theta example_r, YNoneNone], None)
   \<and> get_incoming_angles example_leg example_rays example_interfaces True
     = ([YNoneNone, YPair example_theta example_r], None)"
  by (simp add: get_outgoing_angles_def get_incoming_angles_def example_leg_def
      example_rays_def example_interfaces_def layer_def yield_def no_value_def Let_def
      example_r_def example_theta_def uint8_def)

text \<open>
  Claim C4 says that an interface with a side convention yields the angle.  Without
  \<open>return_distances\<close> both generators yield \<open>distances\<close> where the angle \<open>alpha\<close>
  is meant: in the scenario the legs have angle 0 and length 2, and the array of
  lengths is what comes out.
\<close>

theorem angles_without_distances_yield_distances:
  "get_outgoing_angles example_leg example_rays example_interfaces False
     = ([YOne example_r, YNone], None)
   \<and> get_incoming_angles example_leg example_rays example_interfaces False
     = ([YNone, YOne example_r], None)
   \<and> example_r \<noteq> example_theta"
  by (simp add: get_outgoing_angles_def get_incoming_angles_def example_leg_def
      example_rays_def example_interfaces_def layer_def yield_def no_value_def Let_def
      example_r_def example_theta_def uint8_def)

end
